theory Spec2Isabelle
  imports Complex_Main "HOL-Library.Multiset"
begin

section \<open>Community crime classification pipeline (question 4)\<close>

text \<open>
  A shallow embedding of the script \<^verbatim>\<open>question_4\<close>: the filter of the incident
  table, the per-area aggregates built in \<^verbatim>\<open>main\<close>, the k-means relabelling, the
  right join with the census table, the min-max normalisation and the train/test split.

  The script is written against pandas, numpy and scikit-learn. What those libraries
  compute on the values of a frame is written out here as list functions. The library
  routines whose result is fixed by hidden state or by an algorithm the script does not
  choose are parameters of the model:
  \<^item> \<open>argsort\<close>, numpy's \<^verbatim>\<open>argsort(kind='quicksort')\<close> that \<^verbatim>\<open>sort_values\<close> calls by
    default, whose documentation promises an ascending order and no more;
  \<^item> \<open>kmeans\<close>, \<^verbatim>\<open>KMeans(n_clusters=3, random_state=20).fit_predict\<close> together with
    \<^verbatim>\<open>cluster_centers_\<close>;
  \<^item> \<open>shuffle\<close> and \<open>predict\<close>, the seeded permutation of \<^verbatim>\<open>train_test_split\<close> and
    the fitted classifier.

  Floating-point numbers are idealised: a finite float is a \<^typ>\<open>real\<close>, a missing value
  (NaN) of a column that may have gaps is \<^const>\<open>None\<close>, and where the script divides, the
  quotient is a value of the type \<open>float64\<close> below, which has NaN and the infinities.
\<close>

subsection \<open>Errors\<close>

text \<open>
  The script raises nothing itself; every failure is an exception of a library call.
  \<open>KeyError\<close> carries the column label that was not found, \<open>ValueError\<close> a message.
\<close>

datatype py_error = KeyError string | ValueError string

subsection \<open>Sorting the centroids: \<^verbatim>\<open>sort_values(by='Crime Count', ascending=False)\<close>\<close>

text \<open>
  For one sort column pandas computes the row order with \<^verbatim>\<open>nargsort\<close>: in a descending
  sort it reverses the keys, sorts them ascending with numpy's argsort, and reverses the
  resulting order. The keys here are centroid coordinates, means of finite numbers, so
  the NaN positions \<^verbatim>\<open>nargsort\<close> sets apart are empty.
\<close>

type_synonym argsort = "real list \<Rightarrow> nat list"

definition nargsort :: "argsort \<Rightarrow> real list \<Rightarrow> nat list" where
  "nargsort argsort items =
     (let idx = [0..<length items];
          non_nans = rev items;
          non_nan_idx = rev idx;
          indexer = map (\<lambda>i. non_nan_idx ! i) (argsort non_nans)
      in rev indexer)"

text \<open>
  What numpy documents of \<^verbatim>\<open>argsort\<close>: the result holds every position once, and
  reading the keys in that order gives them ascending. Only the kinds \<^verbatim>\<open>'stable'\<close> and
  \<^verbatim>\<open>'mergesort'\<close> promise to keep equal keys in their input order; the default kind
  \<^verbatim>\<open>'quicksort'\<close>, which the script leaves in place, is documented as not stable, and
  pandas says the same of \<^verbatim>\<open>sort_values\<close>. The order of equal keys is therefore not
  fixed by the model: it is whatever the parameter \<open>argsort\<close> returns.
\<close>

definition argsort_ok :: "argsort \<Rightarrow> bool" where
  "argsort_ok argsort \<longleftrightarrow>
     (\<forall>xs. distinct (argsort xs) \<and> set (argsort xs) = {0..<length xs}
         \<and> sorted (map (\<lambda>i. xs ! i) (argsort xs)))"

text \<open>Two sorting routines that meet the contract: a stable one (insertion sort on the
  positions) and one that leaves equal keys in reverse input order.\<close>

definition stable_argsort :: argsort where
  "stable_argsort xs = sort_key (\<lambda>i. xs ! i) [0..<length xs]"


subsection \<open>\<^verbatim>\<open>KMeans_clustering\<close>\<close>

text \<open>A row of \<^verbatim>\<open>community_data\<close>: the index (the community area) and the three
  aggregate columns; after clustering, the two added columns as well.\<close>

record community_row =
  area :: int
  Crime_Count :: nat
  Arrest_Rate :: real
  Domestic_Rate :: real

record clustered_row = community_row +
  Cluster :: nat
  Crime_Level :: "string option"

text \<open>A centroid is a row of \<^verbatim>\<open>cluster_centers_\<close>, with the three columns of
  \<^verbatim>\<open>community_data.columns[:-1]\<close>: Crime Count, Arrest Rate, Domestic Rate.\<close>

type_synonym centroid = "real \<times> real \<times> real"

type_synonym kmeans = "centroid list \<Rightarrow> py_error + (nat list \<times> centroid list)"

definition centroid_crime_count :: "centroid \<Rightarrow> real" where
  "centroid_crime_count c = fst c"

definition crime_levels :: "string list" where
  "crime_levels = [''High'', ''Moderate'', ''Low'']"

text \<open>
  Lines 61 to 69: the centroid frame has the index 0, 1, 2 (the cluster ids); sorting
  permutes that index; assigning the list \<open>crime_levels\<close> as a column raises
  \<^verbatim>\<open>ValueError\<close> unless the frame has as many rows as the list has entries;
  \<^verbatim>\<open>to_dict\<close> pairs each index value with its level.
\<close>

definition cluster_labels :: "argsort \<Rightarrow> centroid list \<Rightarrow> py_error + (nat \<times> string) list" where
  "cluster_labels argsort centroids =
     (let sorted_centroids = nargsort argsort (map centroid_crime_count centroids)
      in if length sorted_centroids \<noteq> length crime_levels
         then Inl (ValueError ''Length of values does not match length of index'')
         else Inr (zip sorted_centroids crime_levels))"

definition data_matrix :: "community_row list \<Rightarrow> centroid list" where
  "data_matrix community_data =
     map (\<lambda>r. (real (Crime_Count r), Arrest_Rate r, Domestic_Rate r)) community_data"

definition add_columns :: "community_row \<Rightarrow> nat \<Rightarrow> string option \<Rightarrow> clustered_row" where
  "add_columns r c l =
     \<lparr>area = area r, Crime_Count = Crime_Count r, Arrest_Rate = Arrest_Rate r,
      Domestic_Rate = Domestic_Rate r, Cluster = c, Crime_Level = l\<rparr>"

text \<open>
  Assigning the label array as the column \<^verbatim>\<open>Cluster\<close> raises \<^verbatim>\<open>ValueError\<close> when its
  length is not the number of rows. \<^verbatim>\<open>Series.map\<close> with a dictionary gives NaN
  (\<^const>\<open>None\<close>) for a cluster id that is not a key.
\<close>

definition KMeans_clustering ::
  "argsort \<Rightarrow> kmeans \<Rightarrow> community_row list \<Rightarrow> py_error + clustered_row list" where
  "KMeans_clustering argsort kmeans community_data =
     (case kmeans (data_matrix community_data) of
        Inl e \<Rightarrow> Inl e
      | Inr (labels, centroids) \<Rightarrow>
          if length labels \<noteq> length community_data
          then Inl (ValueError ''Length of values does not match length of index'')
          else (case cluster_labels argsort centroids of
                  Inl e \<Rightarrow> Inl e
                | Inr level_of \<Rightarrow>
                    Inr (map (\<lambda>(r, c). add_columns r c (map_of level_of c))
                           (zip community_data labels))))"

text \<open>A clustering of a table of three rows in which every row is a cluster of its own,
  the clusters numbered 2, 0, 1 down the table; any other table is refused.\<close>

definition kmeans_three_rows :: kmeans where
  "kmeans_three_rows X =
     (case X of
        [a, b, c] \<Rightarrow> Inr ([2, 0, 1], [b, c, a])
      | _ \<Rightarrow> Inl (ValueError ''n_samples should be >= n_clusters''))"

text \<open>The three-area table of the specification's scenario.\<close>

definition scenario_rows :: "community_row list" where
  "scenario_rows =
     [\<lparr>area = 1, Crime_Count = 100, Arrest_Rate = 1/2, Domestic_Rate = 1/10\<rparr>,
      \<lparr>area = 2, Crime_Count = 10, Arrest_Rate = 1/5, Domestic_Rate = 1/20\<rparr>,
      \<lparr>area = 3, Crime_Count = 5, Arrest_Rate = 1/10, Domestic_Rate = 1/50\<rparr>]"

subsection \<open>Ranking tied centroids\<close>



subsection \<open>The incident table and \<^verbatim>\<open>filter_df\<close>\<close>

text \<open>
  A row of the incident table holds the four columns the script reads. The column
  \<^verbatim>\<open>Community Area\<close> is read as floating point because it has gaps: a cell is a number or
  NaN (\<^const>\<open>None\<close>); after \<^verbatim>\<open>dropna\<close> it is a number, after \<^verbatim>\<open>astype(int)\<close> an integer,
  so the type of the column is a parameter of the row type.

  A frame is its list of column labels and its rows. A column is read through its label
  only, and a label the frame does not list raises \<^verbatim>\<open>KeyError\<close>; what a row holds in the
  field of an unlisted column is never read.
\<close>

record 'a incident =
  Year :: int
  Community_Area :: 'a
  Arrest :: bool
  Domestic :: bool

record 'a crime_frame =
  columns :: "string list"
  rows :: "'a incident list"

definition set_Community_Area :: "'a incident \<Rightarrow> 'b \<Rightarrow> 'b incident" where
  "set_Community_Area r a =
     \<lparr>Year = Year r, Community_Area = a, Arrest = Arrest r, Domestic = Domestic r\<rparr>"

text \<open>\<^verbatim>\<open>dropna(subset=['Community Area'])\<close> keeps the rows whose cell is a number.\<close>

definition dropna_Community_Area :: "real option incident list \<Rightarrow> real incident list" where
  "dropna_Community_Area rs =
     concat (map (\<lambda>r. case Community_Area r of
                          None \<Rightarrow> []
                        | Some a \<Rightarrow> [set_Community_Area r a]) rs)"

text \<open>Conversion of a float to an integer truncates toward zero.\<close>

definition astype_int :: "real \<Rightarrow> int" where
  "astype_int x = (if 0 \<le> x then \<lfloor>x\<rfloor> else \<lceil>x\<rceil>)"

text \<open>
  The comparisons with 2008 and 2012 read the column \<^verbatim>\<open>Year\<close> first. The comparison
  \<^verbatim>\<open>!= 0\<close> is true of NaN, so it is \<^verbatim>\<open>dropna\<close> that removes the rows with no area.
\<close>

definition filter_df :: "real option crime_frame \<Rightarrow> py_error + int crime_frame" where
  "filter_df df_crime =
     (if ''Year'' \<notin> set (columns df_crime) then Inl (KeyError ''Year'')
      else
        let df_filtered = filter (\<lambda>r. Year r \<ge> 2008 \<and> Year r \<le> 2012) (rows df_crime)
        in if ''Community Area'' \<notin> set (columns df_crime)
           then Inl (KeyError ''Community Area'')
           else
             let df_filtered = filter (\<lambda>r. Community_Area r \<noteq> Some 0) df_filtered;
                 df_filtered = dropna_Community_Area df_filtered;
                 df_filtered =
                   map (\<lambda>r. set_Community_Area r (astype_int (Community_Area r))) df_filtered
             in Inr \<lparr>columns = columns df_crime, rows = df_filtered\<rparr>)"

subsection \<open>The aggregates built in \<^verbatim>\<open>main\<close>\<close>

text \<open>
  A series is a list of pairs of an index value and a value. \<^verbatim>\<open>value_counts\<close> has one
  entry for each distinct value, with the number of its occurrences; pandas orders the
  entries by that number, an order the \<^verbatim>\<open>sort_index\<close> that follows replaces, so the
  entries are listed here in the order \<^const>\<open>remdups\<close> leaves.
\<close>

definition value_counts :: "int list \<Rightarrow> (int \<times> nat) list" where
  "value_counts xs = map (\<lambda>k. (k, count_list xs k)) (remdups xs)"

definition sort_index :: "(int \<times> 'v) list \<Rightarrow> (int \<times> 'v) list" where
  "sort_index s = sort_key fst s"

text \<open>The mean of a boolean column is the share of its true cells. It is taken over
  the rows of a group, of which there is at least one.\<close>

definition mean :: "bool list \<Rightarrow> real" where
  "mean bs = real (length (filter (\<lambda>b. b) bs)) / real (length bs)"

text \<open>\<^verbatim>\<open>groupby('Community Area')[col].mean()\<close>: one entry for each area of the frame,
  the areas ascending, with the mean of the column over the rows of the area.\<close>

definition groupby_mean :: "(int incident \<Rightarrow> bool) \<Rightarrow> int incident list \<Rightarrow> (int \<times> real) list" where
  "groupby_mean col rs =
     map (\<lambda>k. (k, mean (map col (filter (\<lambda>r. Community_Area r = k) rs))))
       (sort (remdups (map Community_Area rs)))"

text \<open>
  \<^verbatim>\<open>pd.DataFrame\<close> of three series aligns them on their index. The three series built
  in \<^verbatim>\<open>main\<close> have the same index (lemma \<open>series_same_index\<close> below), so the rows are
  formed position by position.
\<close>

definition DataFrame ::
  "(int \<times> nat) list \<Rightarrow> (int \<times> real) list \<Rightarrow> (int \<times> real) list \<Rightarrow> community_row list" where
  "DataFrame crime_counts arrest_rate domestic_rate =
     map (\<lambda>((k, c), (ka, a), (kd, d)).
            \<lparr>area = k, Crime_Count = c, Arrest_Rate = a, Domestic_Rate = d\<rparr>)
       (zip crime_counts (zip arrest_rate domestic_rate))"

text \<open>Lines 137 to 153 of \<^verbatim>\<open>main\<close>. Selecting a column of a group-by that the frame
  does not have raises \<^verbatim>\<open>KeyError\<close> (``Column not found'') for that label.\<close>

definition main_community_data :: "real option crime_frame \<Rightarrow> py_error + community_row list" where
  "main_community_data df_crime =
     (case filter_df df_crime of
        Inl e \<Rightarrow> Inl e
      | Inr df_filtered \<Rightarrow>
          let crime_counts = sort_index (value_counts (map Community_Area (rows df_filtered)))
          in if ''Arrest'' \<notin> set (columns df_filtered) then Inl (KeyError ''Arrest'')
             else
               let arrest_rate = sort_index (groupby_mean Arrest (rows df_filtered))
               in if ''Domestic'' \<notin> set (columns df_filtered) then Inl (KeyError ''Domestic'')
                  else
                    let domestic_rate = sort_index (groupby_mean Domestic (rows df_filtered))
                    in Inr (DataFrame crime_counts arrest_rate domestic_rate))"

text \<open>Lines 137 to 156: the aggregates, then the clustering.\<close>

definition main_clustering ::
  "argsort \<Rightarrow> kmeans \<Rightarrow> real option crime_frame \<Rightarrow> py_error + clustered_row list" where
  "main_clustering argsort kmeans df_crime =
     (case main_community_data df_crime of
        Inl e \<Rightarrow> Inl e
      | Inr t \<Rightarrow> KMeans_clustering argsort kmeans t)"


definition required_columns :: "string list" where
  "required_columns = [''Year'', ''Community Area'', ''Arrest'', ''Domestic'']"



text \<open>The rows \<^verbatim>\<open>filter_df\<close> returns, as one function of the rows it is given.\<close>

definition kept :: "real option incident list \<Rightarrow> int incident list" where
  "kept rs = map (\<lambda>r. set_Community_Area r (astype_int (Community_Area r)))
     (dropna_Community_Area (filter (\<lambda>r. Community_Area r \<noteq> Some 0)
        (filter (\<lambda>r. Year r \<ge> 2008 \<and> Year r \<le> 2012) rs)))"

text \<open>An incident table of nine records: six of them qualify, three for area 25, two
  for area 7 and one for area 3; one is of 2007, one of area 0 and one of no area. The
  second table has the same records in reverse order, the third lacks a column.\<close>

definition sample_frame :: "real option crime_frame" where
  "sample_frame =
     \<lparr>columns = [''ID'', ''Year'', ''Community Area'', ''Arrest'', ''Domestic''],
      rows =
        [\<lparr>Year = 2010, Community_Area = Some 25, Arrest = True, Domestic = False\<rparr>,
         \<lparr>Year = 2008, Community_Area = Some 3, Arrest = True, Domestic = True\<rparr>,
         \<lparr>Year = 2007, Community_Area = Some 25, Arrest = True, Domestic = True\<rparr>,
         \<lparr>Year = 2011, Community_Area = Some 0, Arrest = True, Domestic = False\<rparr>,
         \<lparr>Year = 2012, Community_Area = None, Arrest = False, Domestic = True\<rparr>,
         \<lparr>Year = 2012, Community_Area = Some 25, Arrest = False, Domestic = False\<rparr>,
         \<lparr>Year = 2009, Community_Area = Some 7, Arrest = False, Domestic = True\<rparr>,
         \<lparr>Year = 2009, Community_Area = Some 7, Arrest = True, Domestic = True\<rparr>,
         \<lparr>Year = 2011, Community_Area = Some 25, Arrest = True, Domestic = False\<rparr>]\<rparr>"

definition reversed_frame :: "real option crime_frame" where
  "reversed_frame = \<lparr>columns = columns sample_frame, rows = rev (rows sample_frame)\<rparr>"

definition frame_without_Arrest :: "real option crime_frame" where
  "frame_without_Arrest =
     \<lparr>columns = [''ID'', ''Year'', ''Community Area'', ''Domestic''], rows = rows sample_frame\<rparr>"

text \<open>What \<^verbatim>\<open>filter_df\<close> makes of one row: nothing, or the row with its area as an
  integer.\<close>

definition keep_row :: "real option incident \<Rightarrow> int incident option" where
  "keep_row r =
     (if 2008 \<le> Year r \<and> Year r \<le> 2012
      then (case Community_Area r of
              None \<Rightarrow> None
            | Some a \<Rightarrow> if a = 0 then None else Some (set_Community_Area r (astype_int a)))
      else None)"

subsection \<open>The census table, the right join and \<^verbatim>\<open>dropna\<close>\<close>

text \<open>
  A row of the census table: the key column \<^verbatim>\<open>Community Area Number\<close>, the six columns
  that \<open>percentage_col\<close> lists, and the cells of the columns the script never names, of
  which only their being present or missing matters. Any cell may be missing.
\<close>

record census_row =
  Community_Area_Number :: "real option"
  PERCENT_OF_HOUSING_CROWDED :: "real option"
  PERCENT_HOUSEHOLDS_BELOW_POVERTY :: "real option"
  PERCENT_AGED_16_UNEMPLOYED :: "real option"
  PERCENT_AGED_25_WITHOUT_HIGH_SCHOOL_DIPLOMA :: "real option"
  PERCENT_AGED_UNDER_18_OR_OVER_64 :: "real option"
  HARDSHIP_INDEX :: "real option"
  other_columns :: "string option list"

definition percentage_col :: "(census_row \<Rightarrow> real option) list" where
  "percentage_col =
     [PERCENT_OF_HOUSING_CROWDED,
      PERCENT_HOUSEHOLDS_BELOW_POVERTY,
      PERCENT_AGED_16_UNEMPLOYED,
      PERCENT_AGED_25_WITHOUT_HIGH_SCHOOL_DIPLOMA,
      PERCENT_AGED_UNDER_18_OR_OVER_64,
      HARDSHIP_INDEX]"

text \<open>
  \<^verbatim>\<open>pd.merge(community_data, df_census, left_on='Community Area',
  right_on='Community Area Number', how='right')\<close>: the rows follow the census table; a
  census row is paired with every clustered row of its key, or, when there is none, kept
  once with all the columns of the left table missing. The left key is the index of
  \<^verbatim>\<open>community_data\<close>, which carries the name \<^verbatim>\<open>Community Area\<close> that \<^verbatim>\<open>value_counts\<close> and
  \<^verbatim>\<open>groupby\<close> give it; it is an integer and the right key a float, and they match when
  they are the same number. A census row with no key matches nothing.
\<close>

type_synonym merged_row = "clustered_row option \<times> census_row"

definition merge_right :: "clustered_row list \<Rightarrow> census_row list \<Rightarrow> merged_row list" where
  "merge_right community_data df_census =
     concat (map (\<lambda>r.
        case filter (\<lambda>l. Some (real_of_int (area l)) = Community_Area_Number r) community_data of
          [] \<Rightarrow> [(None, r)]
        | ls \<Rightarrow> map (\<lambda>l. (Some l, r)) ls) df_census)"

text \<open>A row of the merged table in which no cell is missing: the key, the columns of
  the clustered row, and the six indicators in the order of \<open>percentage_col\<close>.\<close>

record joined_row =
  key :: real
  aggregate :: clustered_row
  level :: string
  indicators :: "real list"

text \<open>\<^verbatim>\<open>merged_df.dropna()\<close> drops every row with a missing cell in any column. The
  counts and rates of a clustered row are numbers; its level may be missing.\<close>

definition complete_row :: "merged_row \<Rightarrow> joined_row option" where
  "complete_row m =
     (case m of
        (None, r) \<Rightarrow> None
      | (Some l, r) \<Rightarrow>
          (case (Crime_Level l, Community_Area_Number r,
                 List.those (map (\<lambda>c. c r) percentage_col), List.those (other_columns r)) of
             (Some lv, Some k, Some xs, Some ys) \<Rightarrow>
               Some \<lparr>key = k, aggregate = l, level = lv, indicators = xs\<rparr>
           | _ \<Rightarrow> None))"

definition dropna :: "merged_row list \<Rightarrow> joined_row list" where
  "dropna merged_df = List.map_filter complete_row merged_df"


subsection \<open>\<^verbatim>\<open>normalize_df\<close>\<close>

text \<open>
  The result of a floating-point division: a finite number, an infinity or NaN.
  A quotient with a divisor other than zero is idealised as the real quotient; zero
  divided by zero is NaN, and pandas raises nothing for it.
\<close>

datatype float64 = Fin real | PInf | NInf | NaN

definition fdiv :: "real \<Rightarrow> real \<Rightarrow> float64" where
  "fdiv a b =
     (if b \<noteq> 0 then Fin (a / b)
      else if a = 0 then NaN
      else if 0 < a then PInf else NInf)"

text \<open>
  A numeric frame is the list of its rows, every row the list of its cells.
  \<^verbatim>\<open>df.min()\<close> and \<^verbatim>\<open>df.max()\<close> are taken column by column, and the subtraction and the
  division pair every cell with the minimum and the maximum of its own column.
\<close>

definition column :: "nat \<Rightarrow> real list list \<Rightarrow> real list" where
  "column j df = map (\<lambda>row. row ! j) df"

definition normalize_df :: "real list list \<Rightarrow> float64 list list" where
  "normalize_df df =
     map (\<lambda>row.
        map (\<lambda>j. fdiv (row ! j - Min (set (column j df)))
                      (Max (set (column j df)) - Min (set (column j df))))
          [0..<length row]) df"

subsection \<open>\<^verbatim>\<open>logistic_regression\<close>\<close>

text \<open>
  \<^verbatim>\<open>train_test_split(X, y, test_size=0.2, random_state=44)\<close>: the test part has
  \<open>\<lceil>0.2 n\<rceil>\<close> rows, which is \<open>(n + 4) div 5\<close>, and the training part the rest; a
  training part of no rows raises \<^verbatim>\<open>ValueError\<close>. The rows are drawn in the order of a
  permutation of the positions that the seed fixes: the first \<open>n_test\<close> positions are
  the test part, the next \<open>n_train\<close> the training part. No stratification is asked for,
  so nothing looks at the classes. A permutation of the positions holds each of them
  once (\<open>shuffle_ok\<close>).
\<close>

type_synonym shuffle = "nat \<Rightarrow> nat list"

definition train_test_split ::
  "shuffle \<Rightarrow> 'a list \<Rightarrow> 'b list \<Rightarrow> py_error + ('a list \<times> 'a list \<times> 'b list \<times> 'b list)" where
  "train_test_split shuffle X y =
     (let n_samples = length X;
          n_test = (n_samples + 4) div 5;
          n_train = n_samples - n_test
      in if n_train = 0
         then Inl (ValueError ''the resulting train set will be empty'')
         else
           let permutation = shuffle n_samples;
               ind_test = take n_test permutation;
               ind_train = take n_train (drop n_test permutation)
           in Inr (map (\<lambda>i. X ! i) ind_train, map (\<lambda>i. X ! i) ind_test,
                   map (\<lambda>i. y ! i) ind_train, map (\<lambda>i. y ! i) ind_test))"

definition shuffle_ok :: "shuffle \<Rightarrow> nat \<Rightarrow> bool" where
  "shuffle_ok shuffle n \<longleftrightarrow> distinct (shuffle n) \<and> set (shuffle n) = {0..<n}"

text \<open>
  The classifier. \<^verbatim>\<open>fit\<close> validates its input: a cell that is not a finite number raises
  \<^verbatim>\<open>ValueError\<close>, and so do training labels of fewer than two classes; \<^verbatim>\<open>predict\<close>
  validates the test rows in the same way. What a fitted model predicts is the parameter
  \<open>predict\<close>, a function of the training part and the test rows.
\<close>

type_synonym predictor = "float64 list list \<Rightarrow> nat list \<Rightarrow> float64 list list \<Rightarrow> nat list"

definition is_finite :: "float64 \<Rightarrow> bool" where
  "is_finite v = (case v of Fin x \<Rightarrow> True | _ \<Rightarrow> False)"

definition all_finite :: "float64 list list \<Rightarrow> bool" where
  "all_finite X \<longleftrightarrow> list_all (list_all is_finite) X"

text \<open>Lines 83 to 97. The function returns the training rows, the true classes of the
  test rows and the predicted ones, from which \<^verbatim>\<open>main\<close> prints its report.\<close>

definition logistic_regression ::
  "shuffle \<Rightarrow> predictor \<Rightarrow> joined_row list
     \<Rightarrow> py_error + (float64 list list \<times> nat list \<times> nat list)" where
  "logistic_regression shuffle predict merged_df =
     (let independent = map indicators merged_df;
          independent = normalize_df independent
      in case train_test_split shuffle independent (map (\<lambda>r. Cluster (aggregate r)) merged_df) of
           Inl e \<Rightarrow> Inl e
         | Inr (X_train, X_test, y_train, y_test) \<Rightarrow>
             if \<not> all_finite X_train then Inl (ValueError ''Input X contains NaN'')
             else if length (remdups y_train) < 2
             then Inl (ValueError ''This solver needs samples of at least 2 classes'')
             else if \<not> all_finite X_test then Inl (ValueError ''Input X contains NaN'')
             else Inr (X_train, y_test, predict X_train y_train X_test))"

text \<open>
  \<^verbatim>\<open>main\<close>, without the plots: the aggregates and the clustering, the join with the
  census table, and the classifier, whose true and predicted classes of the test rows go
  into the printed report and the confusion matrix.
\<close>

definition main ::
  "argsort \<Rightarrow> kmeans \<Rightarrow> shuffle \<Rightarrow> predictor \<Rightarrow> real option crime_frame \<Rightarrow> census_row list
     \<Rightarrow> py_error + (nat list \<times> nat list)" where
  "main argsort kmeans shuffle predict df_crime df_census =
     (case main_clustering argsort kmeans df_crime of
        Inl e \<Rightarrow> Inl e
      | Inr community_data \<Rightarrow>
          let merged_df = dropna (merge_right community_data df_census)
          in (case logistic_regression shuffle predict merged_df of
                Inl e \<Rightarrow> Inl e
              | Inr (X_test, y_test, y_pred) \<Rightarrow> Inr (y_test, y_pred)))"

text \<open>A permutation and a predictor to evaluate the model with: the positions in their
  own order, and the class of the first training row for every test row.\<close>

definition identity_shuffle :: shuffle where
  "identity_shuffle n = [0..<n]"

definition first_class_predictor :: predictor where
  "first_class_predictor X_train y_train X_test =
     (case y_train of [] \<Rightarrow> [] | c # cs \<Rightarrow> replicate (length X_test) c)"

subsection \<open>Tables to evaluate the model on\<close>

text \<open>A clustered table of the four areas 3, 7, 25 and 40, and a census table of six
  rows: the areas 3, 7 and 25 with every cell present, the area 40 with a missing
  indicator, an area 99 that has no aggregate, and a row with no key.\<close>

definition sample_clustered :: "clustered_row list" where
  "sample_clustered =
     [\<lparr>area = 3, Crime_Count = 1, Arrest_Rate = 1, Domestic_Rate = 1,
       Cluster = 2, Crime_Level = Some ''Low''\<rparr>,
      \<lparr>area = 7, Crime_Count = 2, Arrest_Rate = 1/2, Domestic_Rate = 1,
       Cluster = 0, Crime_Level = Some ''Moderate''\<rparr>,
      \<lparr>area = 25, Crime_Count = 3, Arrest_Rate = 2/3, Domestic_Rate = 0,
       Cluster = 1, Crime_Level = Some ''High''\<rparr>,
      \<lparr>area = 40, Crime_Count = 2, Arrest_Rate = 0, Domestic_Rate = 1/2,
       Cluster = 0, Crime_Level = Some ''Moderate''\<rparr>]"

definition census :: "real option \<Rightarrow> real option list \<Rightarrow> string option list \<Rightarrow> census_row" where
  "census k xs others =
     \<lparr>Community_Area_Number = k,
      PERCENT_OF_HOUSING_CROWDED = xs ! 0,
      PERCENT_HOUSEHOLDS_BELOW_POVERTY = xs ! 1,
      PERCENT_AGED_16_UNEMPLOYED = xs ! 2,
      PERCENT_AGED_25_WITHOUT_HIGH_SCHOOL_DIPLOMA = xs ! 3,
      PERCENT_AGED_UNDER_18_OR_OVER_64 = xs ! 4,
      HARDSHIP_INDEX = xs ! 5,
      other_columns = others\<rparr>"

definition sample_census :: "census_row list" where
  "sample_census =
     [census (Some 3) [Some 10, Some 1, Some 0, Some 5, Some 2, Some 8] [Some ''North''],
      census (Some 7) [Some 30, Some 3, Some 2, Some 7, Some 6, Some 24] [Some ''West''],
      census (Some 25) [Some 50, Some 5, Some 4, Some 9, Some 10, Some 40] [Some ''South''],
      census (Some 40) [Some 70, None, Some 6, Some 11, Some 14, Some 56] [Some ''East''],
      census (Some 99) [Some 90, Some 9, Some 8, Some 13, Some 18, Some 72] [Some ''Far''],
      census None [Some 20, Some 2, Some 1, Some 6, Some 4, Some 16] [Some ''CITY'']]"

text \<open>Joined tables: one of five rows in which no column is constant, with the classes
  0, 1, 2, 0, 1 down the table, and two, of three rows and of two rows, whose first
  column is constant.\<close>

definition joined :: "int \<Rightarrow> nat \<Rightarrow> string \<Rightarrow> real list \<Rightarrow> joined_row" where
  "joined a c l xs =
     \<lparr>key = real_of_int a,
      aggregate = \<lparr>area = a, Crime_Count = 1, Arrest_Rate = 0, Domestic_Rate = 0,
                   Cluster = c, Crime_Level = Some l\<rparr>,
      level = l, indicators = xs\<rparr>"

definition five_rows :: "joined_row list" where
  "five_rows =
     [joined 1 0 ''Low'' [10, 1, 0, 5, 2, 8],
      joined 2 1 ''Moderate'' [20, 2, 1, 6, 4, 16],
      joined 3 2 ''High'' [30, 3, 2, 7, 6, 24],
      joined 4 0 ''Low'' [40, 4, 3, 8, 8, 32],
      joined 5 1 ''Moderate'' [50, 5, 4, 9, 10, 40]]"

definition constant_rows :: "joined_row list" where
  "constant_rows =
     [joined 1 0 ''Low'' [7, 1, 0, 5, 2, 8],
      joined 2 1 ''Moderate'' [7, 2, 1, 6, 4, 16],
      joined 3 2 ''High'' [7, 3, 2, 7, 6, 24]]"

definition degenerate_rows :: "joined_row list" where
  "degenerate_rows =
     [joined 1 0 ''Low'' [12, 1, 0, 5, 2, 8],
      joined 2 1 ''Moderate'' [12, 2, 1, 6, 4, 16]]"

section \<open>Properties\<close>

subsection \<open>The descending sort\<close>

lemma argsort_ok_length:
  assumes "argsort_ok a"
  shows "length (a xs) = length xs"
proof -
  from assms have "distinct (a xs)" "set (a xs) = {0..<length xs}"
    unfolding argsort_ok_def by auto
  then have "card {0..<length xs} = length (a xs)"
    using distinct_card by metis
  then show ?thesis by simp
qed

lemma nargsort_eq:
  assumes "argsort_ok a"
  shows "nargsort a ks = rev (map (\<lambda>i. length ks - Suc i) (a (rev ks)))"
proof -
  from assms have "set (a (rev ks)) = {0..<length ks}"
    unfolding argsort_ok_def by (metis length_rev)
  then have "map (\<lambda>i. rev [0..<length ks] ! i) (a (rev ks))
      = map (\<lambda>i. length ks - Suc i) (a (rev ks))"
    by (intro map_cong) (auto simp: rev_nth)
  then show ?thesis by (simp add: nargsort_def Let_def)
qed

lemma nargsort_length: "argsort_ok a \<Longrightarrow> length (nargsort a ks) = length ks"
  by (simp add: nargsort_eq argsort_ok_length)

lemma nargsort_set:
  assumes "argsort_ok a"
  shows "set (nargsort a ks) = {0..<length ks}"
proof -
  from assms have s: "set (a (rev ks)) = {0..<length ks}"
    unfolding argsort_ok_def by (metis length_rev)
  have "(\<lambda>i. length ks - Suc i) ` {0..<length ks} = {0..<length ks}"
  proof (intro equalityI subsetI)
    fix x assume "x \<in> {0..<length ks}"
    then have "x = length ks - Suc (length ks - Suc x)"
      and "length ks - Suc x \<in> {0..<length ks}" by auto
    then show "x \<in> (\<lambda>i. length ks - Suc i) ` {0..<length ks}" by blast
  qed auto
  with s show ?thesis by (simp add: nargsort_eq [OF assms])
qed

lemma nargsort_distinct:
  assumes "argsort_ok a"
  shows "distinct (nargsort a ks)"
proof -
  from assms have s: "set (a (rev ks)) = {0..<length ks}" and d: "distinct (a (rev ks))"
    unfolding argsort_ok_def by (metis length_rev)+
  have "inj_on (\<lambda>i. length ks - Suc i) {0..<length ks}"
    by (auto simp: inj_on_def)
  with s d show ?thesis by (simp add: nargsort_eq [OF assms] distinct_map)
qed

lemma nargsort_descending:
  assumes "argsort_ok a"
  shows "sorted (rev (map (\<lambda>i. ks ! i) (nargsort a ks)))"
proof -
  from assms have s: "set (a (rev ks)) = {0..<length ks}"
    and o: "sorted (map (\<lambda>i. rev ks ! i) (a (rev ks)))"
    unfolding argsort_ok_def by (metis length_rev)+
  have "rev (map (\<lambda>i. ks ! i) (nargsort a ks))
      = map (\<lambda>i. ks ! (length ks - Suc i)) (a (rev ks))"
    by (simp add: nargsort_eq [OF assms] rev_map o_def)
  also have "\<dots> = map (\<lambda>i. rev ks ! i) (a (rev ks))"
    using s by (intro map_cong) (auto simp: rev_nth)
  finally show ?thesis using o by simp
qed

lemma stable_argsort_ok: "argsort_ok stable_argsort"
  unfolding argsort_ok_def stable_argsort_def by simp



lemma length_three: "length xs = 3 \<Longrightarrow> \<exists>a b c. xs = [a, b, c]"
  by (auto simp: length_Suc_conv numeral_3_eq_3)

lemma upt_three: "{0..<3::nat} = {0, 1, 2}"
  by auto

lemma nargsort_three:
  assumes ok: "argsort_ok a" and len: "length ks = 3"
  shows "\<exists>h m l. nargsort a ks = [h, m, l] \<and> {h, m, l} = {0, 1, 2}
      \<and> h \<noteq> m \<and> m \<noteq> l \<and> h \<noteq> l \<and> ks ! l \<le> ks ! m \<and> ks ! m \<le> ks ! h"
proof -
  have "length (nargsort a ks) = 3" using nargsort_length [OF ok] len by simp
  then obtain h m l where e: "nargsort a ks = [h, m, l]" using length_three by blast
  have "set (nargsort a ks) = {0..<3}" using nargsort_set [OF ok, of ks] len by simp
  then have s: "{h, m, l} = {0, 1, 2}" unfolding e upt_three by simp
  have "distinct (nargsort a ks)" by (rule nargsort_distinct [OF ok])
  then have d: "h \<noteq> m \<and> m \<noteq> l \<and> h \<noteq> l" unfolding e by simp
  have "sorted (rev (map (\<lambda>i. ks ! i) (nargsort a ks)))" by (rule nargsort_descending [OF ok])
  then have o: "ks ! l \<le> ks ! m \<and> ks ! m \<le> ks ! h" unfolding e by simp
  show ?thesis
    apply (rule exI [of _ h], rule exI [of _ m], rule exI [of _ l])
    using e s d o by simp
qed

lemma cluster_labels_three:
  assumes ok: "argsort_ok a" and len: "length cs = 3"
  shows "\<exists>h m l. cluster_labels a cs = Inr [(h, ''High''), (m, ''Moderate''), (l, ''Low'')]
      \<and> {h, m, l} = {0, 1, 2} \<and> h \<noteq> m \<and> m \<noteq> l \<and> h \<noteq> l
      \<and> centroid_crime_count (cs ! l) \<le> centroid_crime_count (cs ! m)
      \<and> centroid_crime_count (cs ! m) \<le> centroid_crime_count (cs ! h)"
proof -
  let ?ks = "map centroid_crime_count cs"
  have len': "length ?ks = 3" using len by simp
  from nargsort_three [OF ok len'] obtain h m l where
    e: "nargsort a ?ks = [h, m, l]" and s: "{h, m, l} = {0, 1, 2}"
    and d: "h \<noteq> m \<and> m \<noteq> l \<and> h \<noteq> l"
    and o: "?ks ! l \<le> ?ks ! m \<and> ?ks ! m \<le> ?ks ! h" by blast
  from s have "h \<in> {0, 1, 2}" "m \<in> {0, 1, 2}" "l \<in> {0, 1, 2}" by blast+
  then have b: "h < length cs" "m < length cs" "l < length cs" using len by auto
  have c: "cluster_labels a cs = Inr [(h, ''High''), (m, ''Moderate''), (l, ''Low'')]"
    by (simp add: cluster_labels_def e crime_levels_def)
  show ?thesis
    apply (rule exI [of _ h], rule exI [of _ m], rule exI [of _ l])
    using c s d o b by simp
qed

subsection \<open>C1: tiers follow the descending order of the centroids' crime counts\<close>

text \<open>
  Claim C1. Whatever ascending sort numpy runs, and whichever cluster id each centroid
  carries, the relabelling of three centroids returns the dictionary that gives
  ``High'', ``Moderate'' and ``Low'' to the cluster ids \<open>h\<close>, \<open>m\<close>, \<open>l\<close> in descending
  order of the centroids' crime counts: the centroid labelled ``High'' has the highest
  crime count of the three and the one labelled ``Low'' the lowest, and a centroid whose
  crime count is strictly above (below) the two others is the one labelled ``High''
  (``Low'').
\<close>

theorem tiers_rank_centroids_by_crime_count:
  assumes ok: "argsort_ok argsort" and len: "length centroids = 3"
  shows "\<exists>h m l. cluster_labels argsort centroids
          = Inr [(h, ''High''), (m, ''Moderate''), (l, ''Low'')]
      \<and> {h, m, l} = {0, 1, 2}
      \<and> centroid_crime_count (centroids ! l) \<le> centroid_crime_count (centroids ! m)
      \<and> centroid_crime_count (centroids ! m) \<le> centroid_crime_count (centroids ! h)
      \<and> (\<forall>i<3. centroid_crime_count (centroids ! i) \<le> centroid_crime_count (centroids ! h)
              \<and> centroid_crime_count (centroids ! l) \<le> centroid_crime_count (centroids ! i))
      \<and> (\<forall>i<3. (\<forall>j<3. j \<noteq> i \<longrightarrow>
                  centroid_crime_count (centroids ! j) < centroid_crime_count (centroids ! i))
              \<longrightarrow> i = h)
      \<and> (\<forall>i<3. (\<forall>j<3. j \<noteq> i \<longrightarrow>
                  centroid_crime_count (centroids ! i) < centroid_crime_count (centroids ! j))
              \<longrightarrow> i = l)"
proof -
  let ?c = "\<lambda>i. centroid_crime_count (centroids ! i)"
  from cluster_labels_three [OF ok len] obtain h m l where
    c: "cluster_labels argsort centroids = Inr [(h, ''High''), (m, ''Moderate''), (l, ''Low'')]"
    and s: "{h, m, l} = {0, 1, 2}" and d: "h \<noteq> m \<and> m \<noteq> l \<and> h \<noteq> l"
    and o: "?c l \<le> ?c m" "?c m \<le> ?c h" by blast
  have mem: "i = h \<or> i = m \<or> i = l" if "i < 3" for i
  proof -
    from that have "i \<in> {0, 1, 2}" by auto
    with s have "i \<in> {h, m, l}" by simp
    then show ?thesis by simp
  qed
  have bnd: "h < 3" "m < 3" "l < 3"
  proof -
    from s have "h \<in> {0, 1, 2}" "m \<in> {0, 1, 2}" "l \<in> {0, 1, 2}" by blast+
    then show "h < 3" "m < 3" "l < 3" by auto
  qed
  have hi: "?c i \<le> ?c h \<and> ?c l \<le> ?c i" if "i < 3" for i
    using mem [OF that] o by auto
  have top: "i = h" if "i < 3" and "\<forall>j<3. j \<noteq> i \<longrightarrow> ?c j < ?c i" for i
  proof (rule ccontr)
    assume "i \<noteq> h"
    with that bnd have "?c h < ?c i" by simp
    with hi [OF that(1)] show False by simp
  qed
  have bot: "i = l" if "i < 3" and "\<forall>j<3. j \<noteq> i \<longrightarrow> ?c i < ?c j" for i
  proof (rule ccontr)
    assume "i \<noteq> l"
    with that bnd have "?c i < ?c l" by simp
    with hi [OF that(1)] show False by simp
  qed
  show ?thesis
    apply (rule exI [of _ h], rule exI [of _ m], rule exI [of _ l])
    using c s o hi top bot by simp
qed

text \<open>Witness: the centroid with the highest crime count is cluster 2, the lowest cluster 1.\<close>

theorem tiers_rank_centroids_witness:
  "argsort_ok stable_argsort
   \<and> length [(10, 1/5, 1/20), (5, 1/10, 1/50), (100::real, 1/2::real, 1/10::real)] = 3
   \<and> cluster_labels stable_argsort [(10, 1/5, 1/20), (5, 1/10, 1/50), (100, 1/2, 1/10)]
       = Inr [(2, ''High''), (0, ''Moderate''), (1, ''Low'')]"
  using tiers_rank_centroids_by_crime_count
      [OF stable_argsort_ok, of "[(10, 1/5, 1/20), (5, 1/10, 1/50), (100, 1/2, 1/10)]"]
    stable_argsort_ok
  by (simp add: cluster_labels_def nargsort_def stable_argsort_def crime_levels_def
      centroid_crime_count_def)

subsection \<open>C5: centroids with equal crime counts\<close>









subsection \<open>C10: the dictionary is a bijection and every row gets a level\<close>

lemma map_of_three_dom:
  assumes s: "{h, m, l} = {0::nat, 1, 2}"
  shows "dom (map_of [(h, ''High''), (m, ''Moderate''), (l, ''Low'')]) = {0, 1, 2}"
proof -
  have "dom (map_of [(h, ''High''), (m, ''Moderate''), (l, ''Low'')]) = {h, m, l}"
    by (auto simp: dom_def)
  with s show ?thesis by simp
qed

lemma map_of_three_bij:
  assumes d: "h \<noteq> m \<and> m \<noteq> l \<and> h \<noteq> l" and s: "{h, m, l} = {0::nat, 1, 2}"
  shows "bij_betw (map_of [(h, ''High''), (m, ''Moderate''), (l, ''Low'')]) {0, 1, 2}
          {Some ''High'', Some ''Moderate'', Some ''Low''}"
proof -
  let ?f = "map_of [(h, ''High''), (m, ''Moderate''), (l, ''Low'')]"
  have i: "inj_on ?f {h, m, l}" using d by (simp add: inj_on_def)
  have r: "?f ` {h, m, l} = {Some ''High'', Some ''Moderate'', Some ''Low''}"
    using d by (simp add: insert_commute)
  have "bij_betw ?f {h, m, l} {Some ''High'', Some ''Moderate'', Some ''Low''}"
    unfolding bij_betw_def using i r by blast
  then show ?thesis unfolding s .
qed

lemma truncate_add_columns: "community_row.truncate (add_columns r c t) = r"
  by (simp add: add_columns_def community_row.truncate_def)

lemma Cluster_add_columns: "Cluster (add_columns r c t) = c"
  by (simp add: add_columns_def)

lemma Crime_Level_add_columns: "Crime_Level (add_columns r c t) = t"
  by (simp add: add_columns_def)

text \<open>
  Claim C10. When k-means returns one label below 3 for each row and three centroids,
  the relabelling returns a dictionary \<open>d\<close> whose keys are the cluster ids 0, 1, 2 and
  which maps them one-to-one onto the three level names; \<^verbatim>\<open>KMeans_clustering\<close> returns
  the rows it was given, each with its cluster id in the column \<open>Cluster\<close> and, in the
  column \<open>Crime_Level\<close>, the level of that id, which is never missing.
\<close>

theorem every_cluster_id_gets_one_tier:
  assumes ok: "argsort_ok argsort"
    and km: "kmeans (data_matrix community_data) = Inr (labels, centroids)"
    and len: "length centroids = 3"
    and n: "length labels = length community_data"
    and rng: "\<forall>c\<in>set labels. c < 3"
  shows "\<exists>d rows. cluster_labels argsort centroids = Inr d
      \<and> KMeans_clustering argsort kmeans community_data = Inr rows
      \<and> dom (map_of d) = {0, 1, 2}
      \<and> bij_betw (map_of d) {0, 1, 2} {Some ''High'', Some ''Moderate'', Some ''Low''}
      \<and> map Cluster rows = labels
      \<and> map community_row.truncate rows = community_data
      \<and> (\<forall>r\<in>set rows. Crime_Level r = map_of d (Cluster r)
            \<and> Crime_Level r \<in> {Some ''High'', Some ''Moderate'', Some ''Low''})"
proof -
  from cluster_labels_three [OF ok len] obtain h m l where
    c: "cluster_labels argsort centroids = Inr [(h, ''High''), (m, ''Moderate''), (l, ''Low'')]"
    and s: "{h, m, l} = {0, 1, 2}" and d: "h \<noteq> m \<and> m \<noteq> l \<and> h \<noteq> l" by blast
  define dict where "dict = [(h, ''High''), (m, ''Moderate''), (l, ''Low'')]"
  define rows where
    "rows = map (\<lambda>(r, c). add_columns r c (map_of dict c)) (zip community_data labels)"
  have c': "cluster_labels argsort centroids = Inr dict" using c by (simp add: dict_def)
  have k: "KMeans_clustering argsort kmeans community_data = Inr rows"
    by (simp add: KMeans_clustering_def km n c' rows_def)
  have "map Cluster rows = map snd (zip community_data labels)"
    by (simp add: rows_def split_def Cluster_add_columns)
  then have cl: "map Cluster rows = labels" using n by simp
  have "map community_row.truncate rows = map fst (zip community_data labels)"
    by (simp add: rows_def split_def truncate_add_columns)
  then have tr: "map community_row.truncate rows = community_data" using n by simp
  have bij: "bij_betw (map_of dict) {0, 1, 2} {Some ''High'', Some ''Moderate'', Some ''Low''}"
    unfolding dict_def by (rule map_of_three_bij [OF d s])
  have dm: "dom (map_of dict) = {0, 1, 2}"
    unfolding dict_def by (rule map_of_three_dom [OF s])
  have lv: "Crime_Level r = map_of dict (Cluster r)
            \<and> Crime_Level r \<in> {Some ''High'', Some ''Moderate'', Some ''Low''}"
    if "r \<in> set rows" for r
  proof -
    from that obtain x c where r: "r = add_columns x c (map_of dict c)" and "c \<in> set labels"
      unfolding rows_def by (auto dest: set_zip_rightD)
    with rng have "c < 3" by simp
    then have "c \<in> {0, 1, 2}" by auto
    then have "map_of dict c \<in> map_of dict ` {0, 1, 2}" by (rule imageI)
    also have "\<dots> = {Some ''High'', Some ''Moderate'', Some ''Low''}"
      using bij by (simp add: bij_betw_def)
    finally show ?thesis by (simp add: r Cluster_add_columns Crime_Level_add_columns)
  qed
  show ?thesis
    apply (rule exI [of _ dict], rule exI [of _ rows])
    using c' k dm bij cl tr lv by blast
qed

text \<open>Witness: the scenario of the specification, the areas 1, 2, 3 in the clusters 2, 0, 1.\<close>

lemma scenario_kmeans:
  "kmeans_three_rows (data_matrix scenario_rows)
     = Inr ([2, 0, 1], [(10, 1/5, 1/20), (5, 1/10, 1/50), (100, 1/2, 1/10)])"
  by (simp add: kmeans_three_rows_def data_matrix_def scenario_rows_def)

lemma scenario_clustering:
  "KMeans_clustering stable_argsort kmeans_three_rows scenario_rows
     = Inr [add_columns (scenario_rows ! 0) 2 (Some ''High''),
            add_columns (scenario_rows ! 1) 0 (Some ''Moderate''),
            add_columns (scenario_rows ! 2) 1 (Some ''Low'')]"
  unfolding KMeans_clustering_def scenario_kmeans
  by (simp add: cluster_labels_def nargsort_def stable_argsort_def crime_levels_def
      centroid_crime_count_def scenario_rows_def)

theorem every_cluster_id_gets_one_tier_witness:
  "argsort_ok stable_argsort
   \<and> kmeans_three_rows (data_matrix scenario_rows)
       = Inr ([2, 0, 1], [(10, 1/5, 1/20), (5, 1/10, 1/50), (100, 1/2, 1/10)])
   \<and> length [(10::real, 1/5::real, 1/20::real), (5, 1/10, 1/50), (100, 1/2, 1/10)] = 3
   \<and> length [2::nat, 0, 1] = length scenario_rows
   \<and> set [2::nat, 0, 1] \<subseteq> {0, 1, 2}
   \<and> KMeans_clustering stable_argsort kmeans_three_rows scenario_rows
       = Inr [add_columns (scenario_rows ! 0) 2 (Some ''High''),
              add_columns (scenario_rows ! 1) 0 (Some ''Moderate''),
              add_columns (scenario_rows ! 2) 1 (Some ''Low'')]"
proof -
  have n: "length [2::nat, 0, 1] = length scenario_rows" by (simp add: scenario_rows_def)
  have rng: "\<forall>c\<in>set [2::nat, 0, 1]. c < 3" by simp
  have len: "length [(10::real, 1/5::real, 1/20::real), (5, 1/10, 1/50), (100, 1/2, 1/10)] = 3"
    by simp
  note every_cluster_id_gets_one_tier
    [where kmeans = kmeans_three_rows and community_data = scenario_rows,
      OF stable_argsort_ok scenario_kmeans len n rng]
  then show ?thesis
    using stable_argsort_ok scenario_kmeans scenario_clustering n by simp
qed

subsection \<open>C2: one aggregate row for each area with qualifying records\<close>

lemma insort_key_index:
  "insort_key fst (k, f k) (map (\<lambda>k. (k, f k)) ys) = map (\<lambda>k. (k, f k)) (insort k ys)"
  by (induction ys) auto

lemma sort_index_map:
  "sort_index (map (\<lambda>k. (k, f k)) ks) = map (\<lambda>k. (k, f k)) (sort ks)"
  unfolding sort_index_def
  by (induction ks) (simp_all add: insort_key_index)

lemma sort_index_value_counts:
  "sort_index (value_counts xs) = map (\<lambda>k. (k, count_list xs k)) (sort (remdups xs))"
  by (simp add: value_counts_def sort_index_map)

lemma sort_index_groupby_mean:
  "sort_index (groupby_mean col rs) = groupby_mean col rs"
  unfolding groupby_mean_def sort_index_map by (simp add: sorted_sort_id)

lemma zip3_map:
  "zip (map f xs) (zip (map g xs) (map h xs)) = map (\<lambda>x. (f x, g x, h x)) xs"
  by (induction xs) auto


lemma DataFrame_map:
  "DataFrame (map (\<lambda>k. (k, c k)) ks) (map (\<lambda>k. (k, a k)) ks) (map (\<lambda>k. (k, d k)) ks)
     = map (\<lambda>k. \<lparr>area = k, Crime_Count = c k, Arrest_Rate = a k, Domestic_Rate = d k\<rparr>) ks"
  by (simp add: DataFrame_def zip3_map)

lemma groupby_mean_eq:
  "sort_index (groupby_mean col rs)
     = map (\<lambda>k. (k, mean (map col (filter (\<lambda>r. Community_Area r = k) rs))))
         (sort (remdups (map Community_Area rs)))"
  unfolding sort_index_groupby_mean by (simp add: groupby_mean_def)


lemma series_same_index:
  "map fst (sort_index (value_counts (map Community_Area rs))) = map fst (sort_index (groupby_mean col rs))"
  by (simp add: sort_index_value_counts groupby_mean_eq o_def)

lemma kept_Nil: "kept [] = []"
  by (simp add: kept_def dropna_Community_Area_def)

lemma kept_Cons:
  "kept (r # rs) =
     (if 2008 \<le> Year r \<and> Year r \<le> 2012
      then (case Community_Area r of
              None \<Rightarrow> kept rs
            | Some a \<Rightarrow> if a = 0 then kept rs
                        else set_Community_Area r (astype_int a) # kept rs)
      else kept rs)"
  by (simp add: kept_def dropna_Community_Area_def set_Community_Area_def split: option.splits)










subsection \<open>C6: the order of the records does not matter\<close>

lemma kept_map_filter: "kept rs = List.map_filter keep_row rs"
  by (induction rs) (simp_all add: kept_Nil kept_Cons map_filter_simps keep_row_def split: option.splits)

lemma mset_kept:
  assumes "mset rs' = mset rs"
  shows "mset (kept rs') = mset (kept rs)"
proof -
  have "mset (filter P rs') = mset (filter P rs)" for P :: "real option incident \<Rightarrow> bool"
    using assms by simp
  then have "mset (map f (filter P rs')) = mset (map f (filter P rs))"
    for P and f :: "real option incident \<Rightarrow> int incident"
    by simp
  then show ?thesis unfolding kept_map_filter map_filter_def .
qed

lemma length_filter_mset:
  assumes "mset xs' = mset xs"
  shows "length (filter P xs') = length (filter P xs)"
proof -
  have "size (mset (filter P xs')) = size (mset (filter P xs))"
    using assms by simp
  then show ?thesis by (simp only: size_mset)
qed

lemma sort_remdups_mset:
  assumes "mset xs' = mset (xs :: int list)"
  shows "sort (remdups xs') = sort (remdups xs)"
proof -
  from assms have "set xs' = set xs" by (rule mset_eq_setD)
  then show ?thesis by (simp flip: sorted_list_of_set_sort_remdups)
qed

lemma count_list_mset:
  assumes "mset xs' = mset xs"
  shows "count_list xs' k = count_list xs k"
  using assms by (simp flip: count_mset)

lemma mean_mset:
  assumes "mset xs' = mset xs"
  shows "mean (map col (filter P xs')) = mean (map col (filter P xs))"
proof -
  have "length (filter (\<lambda>x. P x \<and> col x) xs') = length (filter (\<lambda>x. P x \<and> col x) xs)"
    and "length (filter P xs') = length (filter P xs)"
    using assms by (rule length_filter_mset)+
  then show ?thesis unfolding mean_def by (simp add: filter_map o_def)
qed

lemma aggregates_of_permutation:
  assumes "mset rs' = mset rs"
  shows "DataFrame (sort_index (value_counts (map Community_Area (kept rs'))))
           (sort_index (groupby_mean Arrest (kept rs')))
           (sort_index (groupby_mean Domestic (kept rs')))
       = DataFrame (sort_index (value_counts (map Community_Area (kept rs))))
           (sort_index (groupby_mean Arrest (kept rs)))
           (sort_index (groupby_mean Domestic (kept rs)))"
proof -
  have F: "mset (kept rs') = mset (kept rs)" using assms by (rule mset_kept)
  then have A: "mset (map Community_Area (kept rs')) = mset (map Community_Area (kept rs))"
    by simp
  show ?thesis
    unfolding sort_index_value_counts groupby_mean_eq DataFrame_map
      sort_remdups_mset [OF A] count_list_mset [OF A] mean_mset [OF F] ..
qed

lemma main_community_data_kept:
  "main_community_data df =
     (if ''Year'' \<notin> set (columns df) then Inl (KeyError ''Year'')
      else if ''Community Area'' \<notin> set (columns df) then Inl (KeyError ''Community Area'')
      else if ''Arrest'' \<notin> set (columns df) then Inl (KeyError ''Arrest'')
      else if ''Domestic'' \<notin> set (columns df) then Inl (KeyError ''Domestic'')
      else Inr (DataFrame (sort_index (value_counts (map Community_Area (kept (rows df)))))
           (sort_index (groupby_mean Arrest (kept (rows df))))
           (sort_index (groupby_mean Domestic (kept (rows df))))))"
  by (simp add: main_community_data_def filter_df_def Let_def kept_def)

text \<open>
  Claim C6. Two incident tables with the same columns and the same records, in any two
  orders, give the same aggregate table, row for row; and with the same sort and the same
  seeded k-means (the same functions) they give the same clustering result: the same
  cluster id and the same level for every community area, and the same outcome of
  \<^verbatim>\<open>main\<close>.
\<close>

theorem aggregates_invariant_under_permutation:
  assumes "mset (rows df') = mset (rows df)" and "columns df' = columns df"
  shows "main_community_data df' = main_community_data df
       \<and> main_clustering argsort kmeans df' = main_clustering argsort kmeans df
       \<and> main argsort kmeans shuffle predict df' df_census
           = main argsort kmeans shuffle predict df df_census"
proof -
  have "main_community_data df' = main_community_data df"
    unfolding main_community_data_kept assms(2) aggregates_of_permutation [OF assms(1)] ..
  then show ?thesis by (simp add: main_def main_clustering_def)
qed

text \<open>Witness: the sample table and the same table in reverse order.\<close>

lemma reversed_frame_aggregates:
  "main_community_data reversed_frame =
     Inr [\<lparr>area = 3, Crime_Count = 1, Arrest_Rate = 1, Domestic_Rate = 1\<rparr>,
          \<lparr>area = 7, Crime_Count = 2, Arrest_Rate = 1/2, Domestic_Rate = 1\<rparr>,
          \<lparr>area = 25, Crime_Count = 3, Arrest_Rate = 2/3, Domestic_Rate = 0\<rparr>]"
  by (simp add: main_community_data_def filter_df_def sample_frame_def reversed_frame_def
      dropna_Community_Area_def set_Community_Area_def astype_int_def
      sort_index_def value_counts_def groupby_mean_def mean_def DataFrame_def)

lemma sample_table_clustering:
  "KMeans_clustering stable_argsort kmeans_three_rows
     [\<lparr>area = 3, Crime_Count = 1, Arrest_Rate = 1, Domestic_Rate = 1\<rparr>,
      \<lparr>area = 7, Crime_Count = 2, Arrest_Rate = 1/2, Domestic_Rate = 1\<rparr>,
      \<lparr>area = 25, Crime_Count = 3, Arrest_Rate = 2/3, Domestic_Rate = 0\<rparr>]
   = Inr [\<lparr>area = 3, Crime_Count = 1, Arrest_Rate = 1, Domestic_Rate = 1,
           Cluster = 2, Crime_Level = Some ''Low''\<rparr>,
          \<lparr>area = 7, Crime_Count = 2, Arrest_Rate = 1/2, Domestic_Rate = 1,
           Cluster = 0, Crime_Level = Some ''Moderate''\<rparr>,
          \<lparr>area = 25, Crime_Count = 3, Arrest_Rate = 2/3, Domestic_Rate = 0,
           Cluster = 1, Crime_Level = Some ''High''\<rparr>]"
  by (simp add: KMeans_clustering_def kmeans_three_rows_def data_matrix_def
      cluster_labels_def nargsort_def stable_argsort_def crime_levels_def
      centroid_crime_count_def add_columns_def)

theorem aggregates_invariant_under_permutation_witness:
  "mset (rows reversed_frame) = mset (rows sample_frame)
   \<and> columns reversed_frame = columns sample_frame
   \<and> main_community_data reversed_frame = main_community_data sample_frame
   \<and> main_clustering stable_argsort kmeans_three_rows reversed_frame
       = Inr [\<lparr>area = 3, Crime_Count = 1, Arrest_Rate = 1, Domestic_Rate = 1,
               Cluster = 2, Crime_Level = Some ''Low''\<rparr>,
              \<lparr>area = 7, Crime_Count = 2, Arrest_Rate = 1/2, Domestic_Rate = 1,
               Cluster = 0, Crime_Level = Some ''Moderate''\<rparr>,
              \<lparr>area = 25, Crime_Count = 3, Arrest_Rate = 2/3, Domestic_Rate = 0,
               Cluster = 1, Crime_Level = Some ''High''\<rparr>]
   \<and> main_clustering stable_argsort kmeans_three_rows sample_frame
       = main_clustering stable_argsort kmeans_three_rows reversed_frame"
proof -
  have m: "mset (rows reversed_frame) = mset (rows sample_frame)"
    by (simp add: reversed_frame_def)
  have c: "columns reversed_frame = columns sample_frame"
    by (simp add: reversed_frame_def)
  have k: "main_clustering stable_argsort kmeans_three_rows reversed_frame
       = Inr [\<lparr>area = 3, Crime_Count = 1, Arrest_Rate = 1, Domestic_Rate = 1,
               Cluster = 2, Crime_Level = Some ''Low''\<rparr>,
              \<lparr>area = 7, Crime_Count = 2, Arrest_Rate = 1/2, Domestic_Rate = 1,
               Cluster = 0, Crime_Level = Some ''Moderate''\<rparr>,
              \<lparr>area = 25, Crime_Count = 3, Arrest_Rate = 2/3, Domestic_Rate = 0,
               Cluster = 1, Crime_Level = Some ''High''\<rparr>]"
    unfolding main_clustering_def reversed_frame_aggregates
    by (simp only: sum.case sample_table_clustering)
  from aggregates_invariant_under_permutation
    [OF m c, of stable_argsort kmeans_three_rows] m c k
  show ?thesis by simp
qed

subsection \<open>C7: a missing column\<close>

text \<open>
  Claim C7. When the incident table lacks one of the four columns, the aggregation
  returns no table: it fails with the \<^verbatim>\<open>KeyError\<close> that pandas raises for a column label
  it does not find, which is the missing-column error of the specification, and the
  label it names is one of the four that the table lacks. No default stands in for the
  column, and the whole of \<^verbatim>\<open>main\<close> fails with the same error.
\<close>

theorem missing_column_raises_KeyError:
  assumes "c \<in> set required_columns" and "c \<notin> set (columns df)"
  shows "\<exists>c'. c' \<in> set required_columns \<and> c' \<notin> set (columns df)
      \<and> main_community_data df = Inl (KeyError c')
      \<and> main_clustering argsort kmeans df = Inl (KeyError c')
      \<and> main argsort kmeans shuffle predict df df_census = Inl (KeyError c')"
proof -
  from assms have "''Year'' \<notin> set (columns df) \<or> ''Community Area'' \<notin> set (columns df)
      \<or> ''Arrest'' \<notin> set (columns df) \<or> ''Domestic'' \<notin> set (columns df)"
    by (auto simp: required_columns_def)
  then show ?thesis
    unfolding main_def main_clustering_def main_community_data_kept required_columns_def
    by auto
qed

text \<open>Witness: the sample table without the column \<^verbatim>\<open>Arrest\<close>.\<close>

theorem missing_column_raises_KeyError_witness:
  "''Arrest'' \<in> set required_columns
   \<and> ''Arrest'' \<notin> set (columns frame_without_Arrest)
   \<and> main_community_data frame_without_Arrest = Inl (KeyError ''Arrest'')
   \<and> main stable_argsort kmeans_three_rows identity_shuffle first_class_predictor
         frame_without_Arrest sample_census
       = Inl (KeyError ''Arrest'')"
proof -
  have r: "''Arrest'' \<in> set required_columns" by (simp add: required_columns_def)
  have c: "''Arrest'' \<notin> set (columns frame_without_Arrest)"
    by (simp add: frame_without_Arrest_def)
  have e: "main_community_data frame_without_Arrest = Inl (KeyError ''Arrest'')"
    by (simp add: main_community_data_kept frame_without_Arrest_def)
  from missing_column_raises_KeyError
    [OF r c, of stable_argsort kmeans_three_rows identity_shuffle first_class_predictor
       sample_census] r c e
  show ?thesis by (simp add: main_def main_clustering_def)
qed

subsection \<open>C3: the join keeps the areas of both tables\<close>


lemma in_set_map_filter:
  "y \<in> set (List.map_filter f xs) \<longleftrightarrow> (\<exists>x\<in>set xs. f x = Some y)"
  by (induction xs) (auto simp: map_filter_simps split: option.splits)


lemma complete_row_Some:
  "complete_row (l', r) = Some j \<Longrightarrow>
     \<exists>l. l' = Some l \<and> aggregate j = l \<and> Community_Area_Number r = Some (key j)
       \<and> Crime_Level l = Some (level j)
       \<and> List.those (map (\<lambda>c. c r) percentage_col) = Some (indicators j)"
  by (auto simp: complete_row_def split: option.splits)






text \<open>Witness: of the six census rows, those of the areas 3, 7 and 25 remain.\<close>

lemma sample_join:
  "dropna (merge_right sample_clustered sample_census) =
     [\<lparr>key = 3, aggregate = sample_clustered ! 0, level = ''Low'',
       indicators = [10, 1, 0, 5, 2, 8]\<rparr>,
      \<lparr>key = 7, aggregate = sample_clustered ! 1, level = ''Moderate'',
       indicators = [30, 3, 2, 7, 6, 24]\<rparr>,
      \<lparr>key = 25, aggregate = sample_clustered ! 2, level = ''High'',
       indicators = [50, 5, 4, 9, 10, 40]\<rparr>]"
  by (simp add: dropna_def merge_right_def sample_clustered_def sample_census_def census_def
      complete_row_def percentage_col_def)


subsection \<open>C4: min-max normalisation of a column\<close>

lemma normalize_df_length: "length (normalize_df df) = length df"
  by (simp add: normalize_df_def)

lemma normalize_df_row_length: "i < length df \<Longrightarrow> length (normalize_df df ! i) = length (df ! i)"
  by (simp add: normalize_df_def)

lemma normalize_df_nth:
  assumes "i < length df" and "j < length (df ! i)"
  shows "normalize_df df ! i ! j =
     fdiv (df ! i ! j - Min (set (column j df)))
       (Max (set (column j df)) - Min (set (column j df)))"
  using assms by (simp add: normalize_df_def)

lemma constant_column_NaN:
  assumes i: "i < length df" and j: "j < length (df ! i)"
    and c: "\<forall>row\<in>set df. row ! j = c"
  shows "normalize_df df ! i ! j = NaN"
proof -
  from i have "df \<noteq> []" by auto
  have "column j df = map (\<lambda>row. c) df"
    unfolding column_def using c by (intro map_cong) auto
  with \<open>df \<noteq> []\<close> have "set (column j df) = {c}"
    by (simp add: map_replicate_const)
  moreover have "df ! i ! j = c" using c i by simp
  ultimately show ?thesis using i j by (simp add: normalize_df_nth fdiv_def)
qed

lemma those_length: "List.those xs = Some ys \<Longrightarrow> length ys = length xs"
  by (induction xs arbitrary: ys) (auto split: option.splits)

lemma dropna_indicators_length:
  assumes "r \<in> set (dropna merged)"
  shows "length (indicators r) = 6"
proof -
  from assms obtain m where "complete_row m = Some r"
    unfolding dropna_def in_set_map_filter by blast
  then obtain l' c where "complete_row (l', c) = Some r" by (cases m) auto
  from complete_row_Some [OF this]
  have "List.those (map (\<lambda>col. col c) percentage_col) = Some (indicators r)" by blast
  from those_length [OF this] show ?thesis by (simp add: percentage_col_def)
qed

lemma degenerate_rows_normalized:
  "normalize_df (map indicators degenerate_rows) =
     [[NaN, Fin 0, Fin 0, Fin 0, Fin 0, Fin 0],
      [NaN, Fin 1, Fin 1, Fin 1, Fin 1, Fin 1]]"
  by (simp add: normalize_df_def degenerate_rows_def joined_def column_def fdiv_def)

lemma sample_join_normalized:
  "normalize_df (map indicators (dropna (merge_right sample_clustered sample_census))) =
     [[Fin 0, Fin 0, Fin 0, Fin 0, Fin 0, Fin 0],
      [Fin (1/2), Fin (1/2), Fin (1/2), Fin (1/2), Fin (1/2), Fin (1/2)],
      [Fin 1, Fin 1, Fin 1, Fin 1, Fin 1, Fin 1]]"
  unfolding sample_join
  by (simp add: normalize_df_def column_def fdiv_def)

text \<open>
  Claim C4, as stated, fails for a column whose values are all equal: its minimum is its
  maximum, the quotient is zero divided by zero, and a value equal to the minimum
  normalises to NaN, not to 0. In the joined table below the first column is 12, 12.
\<close>

theorem normalization_of_constant_column_counterexample:
  "column 0 (map indicators degenerate_rows) = [12, 12]
   \<and> indicators (degenerate_rows ! 0) ! 0 = Min (set (column 0 (map indicators degenerate_rows)))
   \<and> normalize_df (map indicators degenerate_rows) ! 0 ! 0 = NaN
   \<and> normalize_df (map indicators degenerate_rows) ! 0 ! 0 \<noteq> Fin 0"
  unfolding degenerate_rows_normalized
  by (simp add: degenerate_rows_def joined_def column_def)

text \<open>
  Claim C4, amended. The joined table has six indicator columns, and
  \<^verbatim>\<open>logistic_regression\<close> normalises each of them with the minimum \<open>lo\<close> and the maximum
  \<open>hi\<close> of that column in the joined table. In a column whose minimum and maximum
  differ, the cell \<open>x\<close> of row \<open>i\<close> becomes \<open>(x - lo) / (hi - lo)\<close>: 0 when \<open>x\<close> is the
  minimum, 1 when it is the maximum, and 0.5 for the value 30 in a column with minimum
  10 and maximum 50.
\<close>

theorem min_max_normalization:
  assumes merged: "merged_df = dropna (merge_right community_data df_census)"
    and i: "i < length merged_df" and j: "j < 6"
    and lo: "lo = Min (set (column j (map indicators merged_df)))"
    and hi: "hi = Max (set (column j (map indicators merged_df)))"
    and x: "x = indicators (merged_df ! i) ! j"
    and ne: "lo \<noteq> hi"
  shows "length (indicators (merged_df ! i)) = 6
       \<and> normalize_df (map indicators merged_df) ! i ! j = Fin ((x - lo) / (hi - lo))
       \<and> (x = lo \<longrightarrow> normalize_df (map indicators merged_df) ! i ! j = Fin 0)
       \<and> (x = hi \<longrightarrow> normalize_df (map indicators merged_df) ! i ! j = Fin 1)
       \<and> (lo = 10 \<and> hi = 50 \<and> x = 30 \<longrightarrow>
            normalize_df (map indicators merged_df) ! i ! j = Fin (1 / 2))"
proof -
  from i have "merged_df ! i \<in> set (dropna (merge_right community_data df_census))"
    unfolding merged by simp
  then have six: "length (indicators (merged_df ! i)) = 6" by (rule dropna_indicators_length)
  with j have j': "j < length (map indicators merged_df ! i)" using i by simp
  from i have i': "i < length (map indicators merged_df)" by simp
  have "normalize_df (map indicators merged_df) ! i ! j = fdiv (x - lo) (hi - lo)"
    using normalize_df_nth [OF i' j'] i by (simp add: lo hi x)
  also have "\<dots> = Fin ((x - lo) / (hi - lo))" using ne by (simp add: fdiv_def)
  finally have e: "normalize_df (map indicators merged_df) ! i ! j = Fin ((x - lo) / (hi - lo))" .
  show ?thesis unfolding e using ne six by simp
qed

text \<open>Witness: the first indicator is 10, 30, 50 in the joined sample table, and reaches
  90 in a census row that the join drops.\<close>

theorem min_max_normalization_witness:
  "(1::nat) < length (dropna (merge_right sample_clustered sample_census))
   \<and> Min (set (column 0 (map indicators (dropna (merge_right sample_clustered sample_census))))) = 10
   \<and> Max (set (column 0 (map indicators (dropna (merge_right sample_clustered sample_census))))) = 50
   \<and> indicators (dropna (merge_right sample_clustered sample_census) ! 1) ! 0 = 30
   \<and> normalize_df (map indicators (dropna (merge_right sample_clustered sample_census))) ! 1 ! 0
       = Fin (1 / 2)
   \<and> normalize_df (map indicators (dropna (merge_right sample_clustered sample_census))) ! 0 ! 0
       = Fin 0
   \<and> normalize_df (map indicators (dropna (merge_right sample_clustered sample_census))) ! 2 ! 0
       = Fin 1
   \<and> PERCENT_OF_HOUSING_CROWDED (sample_census ! 4) = Some 90"
proof -
  let ?J = "dropna (merge_right sample_clustered sample_census)"
  have i: "1 < length ?J" unfolding sample_join by simp
  have j: "(0::nat) < 6" by simp
  have lo: "10 = Min (set (column 0 (map indicators ?J)))"
    unfolding sample_join by (simp add: column_def)
  have hi: "50 = Max (set (column 0 (map indicators ?J)))"
    unfolding sample_join by (simp add: column_def)
  have x: "30 = indicators (?J ! 1) ! 0" unfolding sample_join by simp
  have ne: "(10::real) \<noteq> 50" by simp
  from min_max_normalization [OF refl i j lo hi x ne]
  have "normalize_df (map indicators ?J) ! 1 ! 0 = Fin (1 / 2)" by simp
  moreover have "PERCENT_OF_HOUSING_CROWDED (sample_census ! 4) = Some 90"
    by (simp add: sample_census_def census_def)
  ultimately show ?thesis
    using i lo [symmetric] hi [symmetric] x [symmetric]
    by (simp add: sample_join_normalized)
qed

subsection \<open>C8: a constant indicator column\<close>

lemma shuffle_ok_length: "shuffle_ok s n \<Longrightarrow> length (s n) = n"
proof -
  assume "shuffle_ok s n"
  then have "distinct (s n)" "set (s n) = {0..<n}" by (simp_all add: shuffle_ok_def)
  then have "card {0..<n} = length (s n)" using distinct_card by metis
  then show ?thesis by simp
qed

lemma train_test_split_small:
  "length X < 2 \<Longrightarrow>
     train_test_split s X y = Inl (ValueError ''the resulting train set will be empty'')"
  by (simp add: train_test_split_def Let_def)

lemma train_test_split_large:
  "2 \<le> length X \<Longrightarrow>
     train_test_split s X y =
       Inr (map (\<lambda>i. X ! i) (take (length X - (length X + 4) div 5) (drop ((length X + 4) div 5) (s (length X)))),
            map (\<lambda>i. X ! i) (take ((length X + 4) div 5) (s (length X))),
            map (\<lambda>i. y ! i) (take (length X - (length X + 4) div 5) (drop ((length X + 4) div 5) (s (length X)))),
            map (\<lambda>i. y ! i) (take ((length X + 4) div 5) (s (length X))))"
  by (simp add: train_test_split_def Let_def)

lemma NaN_not_all_finite:
  assumes "row \<in> set X" and "j < length row" and "row ! j = NaN"
  shows "\<not> all_finite X"
proof -
  from assms(2,3) have "\<not> list_all is_finite row"
    by (auto simp: list_all_length is_finite_def)
  with assms(1) show ?thesis by (auto simp: all_finite_def list_all_iff)
qed

lemma identity_shuffle_ok: "shuffle_ok identity_shuffle n"
  by (simp add: shuffle_ok_def identity_shuffle_def)

lemma constant_rows_normalized:
  "normalize_df (map indicators constant_rows) =
     [[NaN, Fin 0, Fin 0, Fin 0, Fin 0, Fin 0],
      [NaN, Fin (1/2), Fin (1/2), Fin (1/2), Fin (1/2), Fin (1/2)],
      [NaN, Fin 1, Fin 1, Fin 1, Fin 1, Fin 1]]"
  by (simp add: normalize_df_def constant_rows_def joined_def column_def fdiv_def)

lemma constant_rows_fail:
  "logistic_regression identity_shuffle first_class_predictor constant_rows =
     Inl (ValueError ''Input X contains NaN'')"
  unfolding logistic_regression_def Let_def constant_rows_normalized
  by (simp add: train_test_split_def identity_shuffle_def constant_rows_def joined_def
      all_finite_def is_finite_def first_class_predictor_def)

text \<open>
  Claim C8, as stated, fails. \<^verbatim>\<open>normalize_df\<close> has no case for a constant column: it
  raises nothing and fills in nothing, and returns the frame with NaN in every cell of
  that column. In the three-row table below the first column is 7, 7, 7.
\<close>

theorem constant_column_counterexample:
  "column 0 (map indicators constant_rows) = [7, 7, 7]
   \<and> normalize_df (map indicators constant_rows) =
       [[NaN, Fin 0, Fin 0, Fin 0, Fin 0, Fin 0],
        [NaN, Fin (1/2), Fin (1/2), Fin (1/2), Fin (1/2), Fin (1/2)],
        [NaN, Fin 1, Fin 1, Fin 1, Fin 1, Fin 1]]"
  unfolding constant_rows_normalized
  by (simp add: constant_rows_def joined_def column_def)

text \<open>
  Claim C8, amended. For a joined table with a constant indicator column,
  \<^verbatim>\<open>normalize_df\<close> returns NaN in every cell of that column and raises nothing. The run
  fails later and prints no report: \<^verbatim>\<open>train_test_split\<close> refuses a table of fewer than
  two rows, and otherwise the classifier refuses the training rows, which hold NaN; both
  raise \<^verbatim>\<open>ValueError\<close>.
\<close>

theorem constant_column_gives_NaN:
  assumes col: "\<forall>r\<in>set merged_df. j < length (indicators r) \<and> indicators r ! j = c"
    and sh: "shuffle_ok shuffle (length merged_df)"
  shows "(\<forall>i<length merged_df. normalize_df (map indicators merged_df) ! i ! j = NaN)
       \<and> (\<exists>msg. logistic_regression shuffle predict merged_df = Inl (ValueError msg))"
proof
  define X where "X = normalize_df (map indicators merged_df)"
  define n where "n = length merged_df"
  have nX: "length X = n" by (simp add: X_def n_def normalize_df_length)
  have nan: "X ! i ! j = NaN \<and> j < length (X ! i)" if "i < n" for i
  proof -
    from that have i: "i < length (map indicators merged_df)" by (simp add: n_def)
    from that col have j: "j < length (map indicators merged_df ! i)" by (simp add: n_def)
    from col have c: "\<forall>row\<in>set (map indicators merged_df). row ! j = c" by simp
    show ?thesis
      unfolding X_def using constant_column_NaN [OF i j c] normalize_df_row_length [OF i] j
      by simp
  qed
  then show "\<forall>i<length merged_df. normalize_df (map indicators merged_df) ! i ! j = NaN"
    by (simp add: X_def n_def)
  show "\<exists>msg. logistic_regression shuffle predict merged_df = Inl (ValueError msg)"
  proof (cases "n < 2")
    case True
    then have "length X < 2" by (simp add: nX)
    then show ?thesis
      unfolding logistic_regression_def Let_def X_def [symmetric]
      by (simp add: train_test_split_small)
  next
    case False
    then have n2: "2 \<le> length X" by (simp add: nX)
    define t where "t = (n + 4) div 5"
    define idx where "idx = take (n - t) (drop t (shuffle n))"
    have "length (shuffle n) = n" using sh by (simp add: n_def shuffle_ok_length)
    moreover have "t < n" using False by (simp add: t_def)
    ultimately have "length idx = n - t" and "0 < n - t" by (simp_all add: idx_def)
    then have "idx \<noteq> []" by auto
    then obtain i0 where i0: "i0 \<in> set idx" by (cases idx) auto
    then have "i0 \<in> set (shuffle n)"
      unfolding idx_def by (meson in_set_dropD in_set_takeD)
    then have "i0 < n" using sh by (simp add: n_def shuffle_ok_def)
    from nan [OF this] i0 have "\<not> all_finite (map (\<lambda>i. X ! i) idx)"
      by (intro NaN_not_all_finite [where row = "X ! i0" and j = j]) auto
    then show ?thesis
      unfolding logistic_regression_def Let_def X_def [symmetric]
        train_test_split_large [OF n2] nX idx_def t_def
      by simp
  qed
qed

text \<open>Witness: the three-row table with the constant first column.\<close>

theorem constant_column_gives_NaN_witness:
  "list_all (\<lambda>r. 0 < length (indicators r) \<and> indicators r ! 0 = 7) constant_rows
   \<and> shuffle_ok identity_shuffle (length constant_rows)
   \<and> normalize_df (map indicators constant_rows) ! 0 ! 0 = NaN
   \<and> logistic_regression identity_shuffle first_class_predictor constant_rows
       = Inl (ValueError ''Input X contains NaN'')"
proof -
  have c: "\<forall>r\<in>set constant_rows. 0 < length (indicators r) \<and> indicators r ! 0 = 7"
    by (simp add: constant_rows_def joined_def)
  have s: "shuffle_ok identity_shuffle (length constant_rows)" by (rule identity_shuffle_ok)
  from constant_column_gives_NaN [OF c s, of first_class_predictor]
  have "normalize_df (map indicators constant_rows) ! 0 ! 0 = NaN"
    by (simp add: constant_rows_def)
  then show ?thesis
    using c s constant_rows_fail by (simp add: list_all_iff)
qed

subsection \<open>C9: a joined table too small for a test split of all three classes\<close>

lemma five_rows_normalized:
  "normalize_df (map indicators five_rows) =
     [[Fin 0, Fin 0, Fin 0, Fin 0, Fin 0, Fin 0],
      [Fin (1/4), Fin (1/4), Fin (1/4), Fin (1/4), Fin (1/4), Fin (1/4)],
      [Fin (1/2), Fin (1/2), Fin (1/2), Fin (1/2), Fin (1/2), Fin (1/2)],
      [Fin (3/4), Fin (3/4), Fin (3/4), Fin (3/4), Fin (3/4), Fin (3/4)],
      [Fin 1, Fin 1, Fin 1, Fin 1, Fin 1, Fin 1]]"
  by (simp add: normalize_df_def five_rows_def joined_def column_def fdiv_def)

lemma five_rows_report:
  "logistic_regression identity_shuffle first_class_predictor five_rows =
     Inr ([[Fin (1/4), Fin (1/4), Fin (1/4), Fin (1/4), Fin (1/4), Fin (1/4)],
           [Fin (1/2), Fin (1/2), Fin (1/2), Fin (1/2), Fin (1/2), Fin (1/2)],
           [Fin (3/4), Fin (3/4), Fin (3/4), Fin (3/4), Fin (3/4), Fin (3/4)],
           [Fin 1, Fin 1, Fin 1, Fin 1, Fin 1, Fin 1]],
          [0], [1])"
  unfolding logistic_regression_def Let_def five_rows_normalized
  by (simp add: train_test_split_def identity_shuffle_def five_rows_def joined_def
      all_finite_def is_finite_def first_class_predictor_def)

text \<open>
  Claim C9, as stated, fails. The script has no check of the size of the table or of the
  classes in the split. For the five-row table the test part is one row, which cannot
  hold three classes, and the step returns its result: one true class, one prediction.
\<close>

theorem small_table_report_counterexample:
  "length five_rows = 5
   \<and> logistic_regression identity_shuffle first_class_predictor five_rows =
       Inr ([[Fin (1/4), Fin (1/4), Fin (1/4), Fin (1/4), Fin (1/4), Fin (1/4)],
             [Fin (1/2), Fin (1/2), Fin (1/2), Fin (1/2), Fin (1/2), Fin (1/2)],
             [Fin (3/4), Fin (3/4), Fin (3/4), Fin (3/4), Fin (3/4), Fin (3/4)],
             [Fin 1, Fin 1, Fin 1, Fin 1, Fin 1, Fin 1]],
            [0], [1])"
  using five_rows_report by (simp add: five_rows_def)

text \<open>
  Claim C9, amended. For a joined table of fewer than two rows the step fails, with the
  \<^verbatim>\<open>ValueError\<close> of \<^verbatim>\<open>train_test_split\<close> for an empty training part. For a table of two
  rows or more the split succeeds, with \<open>\<lceil>0.2 n\<rceil>\<close> test rows and the rest for training,
  whatever their classes; the step then returns the true and the predicted classes of
  the test rows whenever the classifier accepts its input, that is when the normalised
  cells are finite and the training rows have at least two classes.
\<close>

theorem evaluation_has_no_class_check:
  assumes sh: "shuffle_ok shuffle (length merged_df)"
  shows "(length merged_df < 2 \<longrightarrow>
            logistic_regression shuffle predict merged_df
              = Inl (ValueError ''the resulting train set will be empty''))
       \<and> (2 \<le> length merged_df \<longrightarrow>
            (\<exists>X_train X_test y_train y_test.
               train_test_split shuffle (normalize_df (map indicators merged_df))
                   (map (\<lambda>r. Cluster (aggregate r)) merged_df)
                 = Inr (X_train, X_test, y_train, y_test)
             \<and> length y_test = (length merged_df + 4) div 5
             \<and> length y_train = length merged_df - (length merged_df + 4) div 5
             \<and> (all_finite X_train \<and> 2 \<le> length (remdups y_train) \<and> all_finite X_test \<longrightarrow>
                  logistic_regression shuffle predict merged_df
                    = Inr (X_train, y_test, predict X_train y_train X_test))))"
proof (intro conjI impI)
  assume "length merged_df < 2"
  then have "length (normalize_df (map indicators merged_df)) < 2"
    by (simp add: normalize_df_length)
  then show "logistic_regression shuffle predict merged_df
              = Inl (ValueError ''the resulting train set will be empty'')"
    unfolding logistic_regression_def Let_def by (simp add: train_test_split_small)
next
  assume n2: "2 \<le> length merged_df"
  define X where "X = normalize_df (map indicators merged_df)"
  define y where "y = map (\<lambda>r. Cluster (aggregate r)) merged_df"
  define n where "n = length merged_df"
  define t where "t = (n + 4) div 5"
  have nX: "length X = n" by (simp add: X_def n_def normalize_df_length)
  have X2: "2 \<le> length X" using n2 by (simp add: nX n_def)
  have lp: "length (shuffle n) = n" using sh by (simp add: n_def shuffle_ok_length)
  have tn: "t < n" using n2 by (simp add: t_def n_def)
  define X_train where "X_train = map (\<lambda>i. X ! i) (take (n - t) (drop t (shuffle n)))"
  define X_test where "X_test = map (\<lambda>i. X ! i) (take t (shuffle n))"
  define y_train where "y_train = map (\<lambda>i. y ! i) (take (n - t) (drop t (shuffle n)))"
  define y_test where "y_test = map (\<lambda>i. y ! i) (take t (shuffle n))"
  have s: "train_test_split shuffle X y = Inr (X_train, X_test, y_train, y_test)"
    unfolding train_test_split_large [OF X2] nX X_train_def X_test_def y_train_def y_test_def t_def
    by simp
  have l1: "length y_test = t" using lp tn by (simp add: y_test_def)
  have l2: "length y_train = n - t" using lp tn by (simp add: y_train_def)
  have r: "logistic_regression shuffle predict merged_df
                    = Inr (X_train, y_test, predict X_train y_train X_test)"
    if "all_finite X_train \<and> 2 \<le> length (remdups y_train) \<and> all_finite X_test"
    unfolding logistic_regression_def Let_def X_def [symmetric] y_def [symmetric] s
    using that by simp
  show "\<exists>X_train X_test y_train y_test.
               train_test_split shuffle (normalize_df (map indicators merged_df))
                   (map (\<lambda>r. Cluster (aggregate r)) merged_df)
                 = Inr (X_train, X_test, y_train, y_test)
             \<and> length y_test = (length merged_df + 4) div 5
             \<and> length y_train = length merged_df - (length merged_df + 4) div 5
             \<and> (all_finite X_train \<and> 2 \<le> length (remdups y_train) \<and> all_finite X_test \<longrightarrow>
                  logistic_regression shuffle predict merged_df
                    = Inr (X_train, y_test, predict X_train y_train X_test))"
    apply (rule exI [of _ X_train], rule exI [of _ X_test])
    apply (rule exI [of _ y_train], rule exI [of _ y_test])
    using s l1 l2 r unfolding X_def y_def n_def t_def by blast
qed

text \<open>Witness: the five-row table, and its first row alone.\<close>

theorem evaluation_has_no_class_check_witness:
  "shuffle_ok identity_shuffle (length five_rows)
   \<and> 2 \<le> length five_rows
   \<and> train_test_split identity_shuffle [10::nat, 20, 30, 40, 50] [0::nat, 1, 2, 0, 1]
       = Inr ([20, 30, 40, 50], [10], [1, 2, 0, 1], [0])
   \<and> logistic_regression identity_shuffle first_class_predictor (take 1 five_rows)
       = Inl (ValueError ''the resulting train set will be empty'')"
proof -
  have s: "shuffle_ok identity_shuffle (length five_rows)" by (rule identity_shuffle_ok)
  have s1: "shuffle_ok identity_shuffle (length (take 1 five_rows))"
    by (rule identity_shuffle_ok)
  have n: "2 \<le> length five_rows" by (simp add: five_rows_def)
  have t: "train_test_split identity_shuffle [10::nat, 20, 30, 40, 50] [0::nat, 1, 2, 0, 1]
       = Inr ([20, 30, 40, 50], [10], [1, 2, 0, 1], [0])"
    by (simp add: train_test_split_def identity_shuffle_def)
  from evaluation_has_no_class_check [OF s1, of first_class_predictor]
  have "logistic_regression identity_shuffle first_class_predictor (take 1 five_rows)
       = Inl (ValueError ''the resulting train set will be empty'')"
    by (simp add: five_rows_def)
  with s n t show ?thesis by simp
qed

end
